theory Spec2Isabelle
  imports Complex_Main
begin

section \<open>JavaScript values\<close>

text \<open>
  The values that flow through the program: what \<open>response.json()\<close> produces (null,
  booleans, numbers, strings, arrays, objects) together with \<open>undefined\<close>, which a
  read of a missing property yields. An object is its list of own properties; a read
  takes the first entry with the key. Strings are lists of code units.
\<close>

datatype jsval =
    JUndefined
  | JNull
  | JBool bool
  | JNum rat
  | JStr string
  | JArr "jsval list"
  | JObj "(string \<times> jsval) list"

datatype exn = TypeError | FetchError | SyntaxError

text \<open>ToBoolean, as used by \<open>if (v)\<close>, \<open>!v\<close>, \<open>a || b\<close> and \<open>c ? a : b\<close>.\<close>

fun truthy :: "jsval \<Rightarrow> bool" where
  "truthy JUndefined = False"
| "truthy JNull = False"
| "truthy (JBool b) = b"
| "truthy (JNum n) = (n \<noteq> 0)"
| "truthy (JStr s) = (s \<noteq> [])"
| "truthy (JArr xs) = True"
| "truthy (JObj kvs) = True"

text \<open>\<open>v == null\<close>: true of \<open>null\<close> and \<open>undefined\<close> only.\<close>

fun nullish :: "jsval \<Rightarrow> bool" where
  "nullish JUndefined = True"
| "nullish JNull = True"
| "nullish v = False"

definition js_or :: "jsval \<Rightarrow> jsval \<Rightarrow> jsval" where
  "js_or a b = (if truthy a then a else b)"

text \<open>\<open>typeof v === 'object'\<close>; it holds of \<open>null\<close> too.\<close>

fun typeof_object :: "jsval \<Rightarrow> bool" where
  "typeof_object JNull = True"
| "typeof_object (JArr xs) = True"
| "typeof_object (JObj kvs) = True"
| "typeof_object v = False"

text \<open>
  The property read \<open>v.k\<close>. It throws a TypeError on \<open>null\<close> and \<open>undefined\<close>. On an
  object it gives the property, or \<open>undefined\<close> when the key is missing. The program
  reads only the keys success, data, error, errors, message, details, role, user,
  access_token, email and otp, none of which a primitive or an array inherits from its
  prototype, so on those the read gives \<open>undefined\<close>.
\<close>

fun get :: "jsval \<Rightarrow> string \<Rightarrow> exn + jsval" where
  "get JUndefined k = Inl TypeError"
| "get JNull k = Inl TypeError"
| "get (JObj kvs) k = Inr (case map_of kvs k of None \<Rightarrow> JUndefined | Some v \<Rightarrow> v)"
| "get v k = Inr JUndefined"

definition ebind :: "exn + 'a \<Rightarrow> ('a \<Rightarrow> exn + 'b) \<Rightarrow> exn + 'b" where
  "ebind m f = (case m of Inl e \<Rightarrow> Inl e | Inr x \<Rightarrow> f x)"


section \<open>apiService.request\<close>

text \<open>
  The request configuration. The Authorization header is the text \<open>Bearer\<close> followed
  by the string form of the token; the body is the JSON text of the data. Both are kept
  as the value they are built from; on the values of this model neither conversion
  throws.
\<close>

datatype header = Lit string | Bearer jsval

record config =
  http_method :: string
  headers :: "(string \<times> header) list"
  body :: "jsval option"

definition request_config :: "string \<Rightarrow> jsval \<Rightarrow> jsval \<Rightarrow> config" where
  "request_config meth dat tok =
     \<lparr> http_method = meth,
       headers = [(''Content-Type'', Lit ''application/json''),
                  (''Accept'', Lit ''application/json'')]
                 @ (if truthy tok then [(''Authorization'', Bearer tok)] else []),
       body = (if truthy dat then Some dat else None) \<rparr>"

text \<open>
  What the two awaits of the try block give once they have settled: \<open>fetch\<close>
  rejects, or resolves to a response whose \<open>json()\<close> rejects (the body is not JSON)
  or resolves to the parsed body.
\<close>

type_synonym response = "exn + jsval"
type_synonym fetched = "exn + response"

definition api_result_ok :: "jsval \<Rightarrow> jsval" where
  "api_result_ok d = JObj [(''success'', JBool True), (''data'', d)]"

definition api_result_err :: "jsval \<Rightarrow> jsval" where
  "api_result_err e = JObj [(''success'', JBool False), (''error'', e)]"

definition error_obj :: "jsval \<Rightarrow> string \<Rightarrow> jsval \<Rightarrow> jsval" where
  "error_obj msg code details =
     JObj [(''message'', msg), (''code'', JStr code), (''details'', details)]"

definition network_error :: jsval where
  "network_error =
     api_result_err (JObj [(''message'', JStr ''Network error or server unreachable.''),
                           (''code'', JStr ''NETWORK_ERROR'')])"

text \<open>The classification of the parsed body: the if / else if / else of the try block.\<close>

definition request_classify :: "jsval \<Rightarrow> exn + jsval" where
  "request_classify rawJsonResponse =
     ebind (get rawJsonResponse ''success'') (\<lambda>success.
       if success \<noteq> JUndefined then
         (if truthy success then
            ebind (get rawJsonResponse ''data'') (\<lambda>d. Inr (api_result_ok d))
          else
            ebind (get rawJsonResponse ''errors'') (\<lambda>errors.
              if truthy errors then
                ebind (get rawJsonResponse ''message'') (\<lambda>message.
                  Inr (api_result_err
                         (error_obj (js_or message (JStr ''Validation failed''))
                            ''VALIDATION_ERROR'' errors)))
              else
                ebind (get rawJsonResponse ''error'') (\<lambda>err. Inr (api_result_err err))))
       else if typeof_object rawJsonResponse \<and> rawJsonResponse \<noteq> JNull
               \<and> (case get rawJsonResponse ''error'' of Inr err \<Rightarrow> \<not> truthy err | Inl e \<Rightarrow> False)
               \<and> (case get rawJsonResponse ''errors'' of Inr errors \<Rightarrow> \<not> truthy errors | Inl e \<Rightarrow> False)
       then Inr (api_result_ok rawJsonResponse)
       else
         ebind (get rawJsonResponse ''message'') (\<lambda>message.
           Inr (api_result_err
                  (error_obj (js_or message (JStr ''An unexpected API response format was received.''))
                     ''UNEXPECTED_RESPONSE'' rawJsonResponse))))"

definition request_try :: "fetched \<Rightarrow> exn + jsval" where
  "request_try outcome = ebind outcome (\<lambda>response. ebind response request_classify)"

text \<open>The try / catch: whatever is thrown inside becomes the NETWORK_ERROR result.\<close>

definition request_settle :: "fetched \<Rightarrow> jsval" where
  "request_settle outcome =
     (case request_try outcome of Inl e \<Rightarrow> network_error | Inr result \<Rightarrow> result)"

definition request ::
  "(string \<Rightarrow> config \<Rightarrow> fetched) \<Rightarrow> string \<Rightarrow> string \<Rightarrow> string \<Rightarrow> jsval \<Rightarrow> jsval \<Rightarrow> jsval" where
  "request fetch BASE_URL endpoint meth dat tok =
     request_settle (fetch (BASE_URL @ endpoint) (request_config meth dat tok))"


section \<open>Validation rules\<close>

text \<open>
  A rule gives an error message or \<open>undefined\<close>. The rules below take the field value
  as a string, as their documentation says; an omitted message argument (\<open>None\<close>)
  selects the default, a template literal that prints the numeric parameter in decimal.
\<close>

definition digit_char :: "nat \<Rightarrow> char" where
  "digit_char d = ''0123456789'' ! d"

fun decimal :: "nat \<Rightarrow> string" where
  "decimal n = (if n < 10 then [digit_char n] else decimal (n div 10) @ [digit_char (n mod 10)])"

declare decimal.simps [simp del]

definition is_digit :: "char \<Rightarrow> bool" where
  "is_digit c = (c \<in> set ''0123456789'')"

text \<open>
  \<open>/^\d+$/.test(value)\<close>: the pattern has no flags, so \<open>\d\<close> is one of 0 to 9 and
  the anchors are the two ends of the string: the test holds of the non-empty strings
  made of digits only.
\<close>

definition test_digits :: "string \<Rightarrow> bool" where
  "test_digits s = (s \<noteq> [] \<and> list_all is_digit s)"

definition isNumericAndLength :: "string \<Rightarrow> nat \<Rightarrow> string option \<Rightarrow> jsval" where
  "isNumericAndLength value len message =
     (if value \<noteq> [] \<and> (\<not> test_digits value \<or> length value \<noteq> len)
      then JStr (case message of
                   None \<Rightarrow> ''Must be a '' @ decimal len @ ''-digit number.''
                 | Some m \<Rightarrow> m)
      else JUndefined)"

definition hasMinLength :: "string \<Rightarrow> nat \<Rightarrow> string option \<Rightarrow> jsval" where
  "hasMinLength value minLength message =
     (if value \<noteq> [] \<and> length value < minLength
      then JStr (case message of
                   None \<Rightarrow> ''Must be at least '' @ decimal minLength @ '' characters.''
                 | Some m \<Rightarrow> m)
      else JUndefined)"

text \<open>The loop over the rules: it returns at the first rule whose result is truthy.\<close>

fun validate :: "'v \<Rightarrow> ('v \<Rightarrow> jsval) list \<Rightarrow> jsval" where
  "validate value [] = JUndefined"
| "validate value (rule # rules) =
     (let error = rule value in if truthy error then error else validate value rules)"

text \<open>
  Two rules as a form would write them: a six-digit check given an empty message, and
  a minimum length of eight with the default message.
\<close>

definition otp_rule_blank :: "string \<Rightarrow> jsval" where
  "otp_rule_blank v = isNumericAndLength v 6 (Some [])"

definition min8_rule :: "string \<Rightarrow> jsval" where
  "min8_rule v = hasMinLength v 8 None"


section \<open>The App component: session and page state\<close>

text \<open>
  The model follows \<open>App.js\<close> and the page components it imports (LoginForm,
  ForgotPasswordForm, OTPVerificationForm, ResetPasswordForm, Dashboard,
  ProfileSettings). The single-file copies \<open>App-gemini.jsx\<close> and \<open>App-tailwind.jsx\<close>
  hold earlier versions of the same components.
\<close>

record page =
  name :: string
  data :: jsval

text \<open>
  A request that has been issued and whose handler is suspended at its \<open>await\<close>: the
  continuation that runs when the request settles, with the variables it closes over.
\<close>

datatype cont =
    CheckAuthK
  | LoginK
  | ForgotK jsval
  | OtpK jsval jsval
  | ResetK
  | ProfileK

text \<open>
  The state of App (\<open>useState\<close> and \<open>useRef\<close>), the \<open>authToken\<close> slot of
  localStorage (\<open>None\<close> when the key is absent; the slot shows the value handed to
  \<open>setItem\<close>, which storage keeps in string form), the requests made through
  \<open>apiService.request\<close> so far, oldest first, and the suspended handlers.
\<close>

record app_state =
  user :: jsval
  token :: jsval
  loading :: bool
  flashMessage :: jsval
  flashType :: jsval
  currentPage :: page
  isInitialMount :: bool
  authToken :: "jsval option"
  requested :: "(string \<times> config) list"
  awaiting :: "cont list"

definition initial_state :: "string option \<Rightarrow> app_state" where
  "initial_state stored =
     \<lparr> user = JNull,
       token = (case stored of None \<Rightarrow> JNull | Some t \<Rightarrow> JStr t),
       loading = True,
       flashMessage = JNull,
       flashType = JNull,
       currentPage = \<lparr> name = ''login'', data = JNull \<rparr>,
       isInitialMount = True,
       authToken = map_option JStr stored,
       requested = [],
       awaiting = [] \<rparr>"

definition setCurrentPage :: "page \<Rightarrow> app_state \<Rightarrow> app_state" where
  "setCurrentPage p s = s\<lparr>currentPage := p\<rparr>"

text \<open>The timer that \<open>showFlashMessage\<close> starts is the event \<open>FlashTimeout\<close> below.\<close>

definition showFlashMessage :: "jsval \<Rightarrow> string \<Rightarrow> app_state \<Rightarrow> app_state" where
  "showFlashMessage message type s = s\<lparr>flashMessage := message, flashType := JStr type\<rparr>"

text \<open>The switch compares with \<open>===\<close>, so a case matches that very string only.\<close>

definition redirectToDashboard :: "jsval \<Rightarrow> app_state \<Rightarrow> app_state" where
  "redirectToDashboard role s =
     (if role = JStr ''super_admin'' then setCurrentPage \<lparr> name = ''dashboard'', data = JNull \<rparr> s
      else if role = JStr ''school_admin'' then setCurrentPage \<lparr> name = ''dashboard'', data = JNull \<rparr> s
      else if role = JStr ''hod'' then setCurrentPage \<lparr> name = ''dashboard'', data = JNull \<rparr> s
      else if role = JStr ''teacher'' then setCurrentPage \<lparr> name = ''dashboard'', data = JNull \<rparr> s
      else if role = JStr ''student'' then setCurrentPage \<lparr> name = ''dashboard'', data = JNull \<rparr> s
      else setCurrentPage \<lparr> name = ''login'', data = JNull \<rparr> s)"

definition issue :: "string \<Rightarrow> string \<Rightarrow> jsval \<Rightarrow> jsval \<Rightarrow> cont \<Rightarrow> app_state \<Rightarrow> app_state" where
  "issue endpoint meth dat tok k s =
     s\<lparr>requested := requested s @ [(endpoint, request_config meth dat tok)],
       awaiting := awaiting s @ [k]\<rparr>"

text \<open>
  A handler that throws stops where it is; the state updates it has made stay. A
  handler gives the exception it ended with, if any, and the state it leaves.
  \<open>reading r s k\<close> evaluates an expression that may throw in state \<open>s\<close>.
\<close>

definition reading ::
  "exn + 'a \<Rightarrow> app_state \<Rightarrow> ('a \<Rightarrow> exn option \<times> app_state) \<Rightarrow> exn option \<times> app_state" where
  "reading r s k = (case r of Inl e \<Rightarrow> (Some e, s) | Inr v \<Rightarrow> k v)"

definition get2 :: "jsval \<Rightarrow> string \<Rightarrow> string \<Rightarrow> exn + jsval" where
  "get2 v a b = ebind (get v a) (\<lambda>x. get x b)"


subsection \<open>The mount effect of App\<close>

text \<open>
  \<open>checkAuth\<close> up to its \<open>await\<close>. The \<open>token\<close> it reads is the one of the first
  render; no handler can have changed it before the effect first runs.
\<close>

definition checkAuth :: "app_state \<Rightarrow> app_state" where
  "checkAuth s =
     (if isInitialMount s then
        (let s1 = s\<lparr>isInitialMount := False\<rparr> in
         if truthy (token s1) then issue ''/user'' ''GET'' JNull (token s1) CheckAuthK s1
         else (setCurrentPage \<lparr> name = ''login'', data = JNull \<rparr> s1)\<lparr>loading := False\<rparr>)
      else s)"

text \<open>\<open>checkAuth\<close> from the point where the \<open>/user\<close> request has settled.\<close>

definition checkAuth_resume :: "jsval \<Rightarrow> app_state \<Rightarrow> exn option \<times> app_state" where
  "checkAuth_resume response s =
     reading (get response ''success'') s (\<lambda>success.
       if truthy success then
         reading (get response ''data'') s (\<lambda>d.
           let s1 = s\<lparr>user := d\<rparr> in
           reading (get d ''role'') s1 (\<lambda>role.
             (None, (redirectToDashboard role s1)\<lparr>loading := False\<rparr>)))
       else
         (let s1 = s\<lparr>token := JNull\<rparr>;
              s2 = s1\<lparr>authToken := None\<rparr>;
              s3 = showFlashMessage (JStr ''Your session has expired. Please log in again.'') ''danger'' s2;
              s4 = setCurrentPage \<lparr> name = ''login'', data = JNull \<rparr> s3
          in (None, s4\<lparr>loading := False\<rparr>)))"


subsection \<open>The handlers of the pages\<close>

text \<open>
  Each submit handler is cut at its \<open>await\<close>. The state of a form itself (its field
  values, errors and loading flag) is local to the component and is not part of the
  session and page state; the setters of that local state cannot throw and are left
  out, while every property read of the handler stays, in the order of the source.
\<close>

text \<open>LoginForm.handleSubmit, after the await.\<close>

definition handleSubmit_resume :: "jsval \<Rightarrow> app_state \<Rightarrow> exn option \<times> app_state" where
  "handleSubmit_resume response s =
     reading (get response ''success'') s (\<lambda>success.
       if truthy success then
         reading (get2 response ''data'' ''access_token'') s (\<lambda>access_token.
           let s1 = s\<lparr>authToken := Some access_token\<rparr>;
               s2 = s1\<lparr>token := access_token\<rparr> in
           reading (get2 response ''data'' ''user'') s2 (\<lambda>u.
             let s3 = s2\<lparr>user := u\<rparr>;
                 s4 = showFlashMessage (JStr ''Login successful!'') ''success'' s3 in
             reading (get u ''role'') s4 (\<lambda>role.
               (None, redirectToDashboard role s4))))
       else
         reading (get2 response ''error'' ''details'') s (\<lambda>details.
           reading (get2 response ''error'' ''message'') s (\<lambda>message.
             (None, showFlashMessage (js_or message (JStr ''Login failed. Please try again.''))
                      ''danger'' s))))"

text \<open>ForgotPasswordForm.handleRequestOtp, after the await; it closes over the email.\<close>

definition handleRequestOtp_resume :: "jsval \<Rightarrow> jsval \<Rightarrow> app_state \<Rightarrow> exn option \<times> app_state" where
  "handleRequestOtp_resume em response s =
     reading (get response ''success'') s (\<lambda>success.
       if truthy success then
         reading (get2 response ''data'' ''message'') s (\<lambda>message.
           let s1 = showFlashMessage (js_or message (JStr ''OTP sent successfully!'')) ''success'' s in
           (None, setCurrentPage \<lparr> name = ''verify-otp'', data = JObj [(''email'', em)] \<rparr> s1))
       else
         reading (get2 response ''error'' ''details'') s (\<lambda>details.
           reading (get2 response ''error'' ''message'') s (\<lambda>message.
             (None, showFlashMessage (js_or message (JStr ''Failed to send OTP. Please try again.''))
                      ''danger'' s))))"

text \<open>OTPVerificationForm.handleVerifyOtp, after the await; it closes over email and OTP.\<close>

definition handleVerifyOtp_resume ::
  "jsval \<Rightarrow> jsval \<Rightarrow> jsval \<Rightarrow> app_state \<Rightarrow> exn option \<times> app_state" where
  "handleVerifyOtp_resume em code response s =
     reading (get response ''success'') s (\<lambda>success.
       if truthy success then
         reading (get2 response ''data'' ''message'') s (\<lambda>message.
           let s1 = showFlashMessage (js_or message (JStr ''OTP verified successfully!'')) ''success'' s in
           (None, setCurrentPage
                    \<lparr> name = ''reset-password'', data = JObj [(''email'', em), (''otp'', code)] \<rparr> s1))
       else
         reading (get2 response ''error'' ''details'') s (\<lambda>details.
           reading (get2 response ''error'' ''message'') s (\<lambda>message.
             (None, showFlashMessage
                      (js_or message (JStr ''OTP verification failed. Please try again.''))
                      ''danger'' s))))"

text \<open>
  ResetPasswordForm. Email and OTP come from the page data; the two passwords are
  typed. \<open>validateForm\<close> gives the errors it found, in the order it adds them.
\<close>

record reset_form =
  email :: jsval
  otp :: jsval
  password :: string
  passwordConfirmation :: string

definition validateForm :: "reset_form \<Rightarrow> (string \<times> string) list" where
  "validateForm f =
     (if \<not> truthy (email f) then [(''email'', ''Email is required.'')] else [])
     @ (if \<not> truthy (otp f) then [(''otp'', ''OTP is required.'')] else [])
     @ (if password f = [] then [(''password'', ''New password is required.'')]
        else if length (password f) < 6
        then [(''password'', ''Password must be at least 6 characters.'')]
        else [])
     @ (if password f \<noteq> passwordConfirmation f
        then [(''passwordConfirmation'', ''Passwords do not match.'')]
        else [])"

definition handleResetPassword :: "reset_form \<Rightarrow> app_state \<Rightarrow> app_state" where
  "handleResetPassword f s =
     (if validateForm f \<noteq> [] then s
      else issue ''/reset-password'' ''POST''
             (JObj [(''email'', email f), (''otp'', otp f), (''password'', JStr (password f)),
                    (''password_confirmation'', JStr (passwordConfirmation f))])
             JNull ResetK s)"

definition handleResetPassword_resume :: "jsval \<Rightarrow> app_state \<Rightarrow> exn option \<times> app_state" where
  "handleResetPassword_resume response s =
     reading (get response ''success'') s (\<lambda>success.
       if truthy success then
         reading (get2 response ''data'' ''message'') s (\<lambda>message.
           let s1 = showFlashMessage (js_or message (JStr ''Password updated successfully!''))
                      ''success'' s in
           (None, setCurrentPage \<lparr> name = ''login'', data = JNull \<rparr> s1))
       else
         reading (get2 response ''error'' ''details'') s (\<lambda>details.
           reading (get2 response ''error'' ''message'') s (\<lambda>message.
             (None, showFlashMessage
                      (js_or message (JStr ''Password reset failed. Please try again.''))
                      ''danger'' s))))"

text \<open>ProfileSettings.handleChangePassword, after the await.\<close>

definition handleChangePassword_resume :: "jsval \<Rightarrow> app_state \<Rightarrow> exn option \<times> app_state" where
  "handleChangePassword_resume response s =
     reading (get response ''success'') s (\<lambda>success.
       if truthy success then
         reading (get2 response ''data'' ''message'') s (\<lambda>message.
           let s1 = showFlashMessage
                      (js_or message (JStr ''Password updated successfully! Please log in again.''))
                      ''success'' s;
               s2 = s1\<lparr>authToken := None\<rparr>;
               s3 = s2\<lparr>token := JNull\<rparr>;
               s4 = s3\<lparr>user := JNull\<rparr> in
           (None, setCurrentPage \<lparr> name = ''login'', data = JNull \<rparr> s4))
       else
         reading (get2 response ''error'' ''details'') s (\<lambda>details.
           reading (get2 response ''error'' ''message'') s (\<lambda>message.
             (None, showFlashMessage
                      (js_or message (JStr ''Failed to update password. Please try again.''))
                      ''danger'' s))))"

text \<open>Dashboard.handleLogout.\<close>

definition handleLogout :: "app_state \<Rightarrow> app_state" where
  "handleLogout s =
     (let s1 = s\<lparr>authToken := None\<rparr>;
          s2 = s1\<lparr>token := JNull\<rparr>;
          s3 = s2\<lparr>user := JNull\<rparr>;
          s4 = showFlashMessage (JStr ''Logged out successfully.'') ''success'' s3
      in setCurrentPage \<lparr> name = ''login'', data = JNull \<rparr> s4)"


subsection \<open>The events of the application\<close>

text \<open>
  What can happen to a mounted App: its mount effect is invoked, it re-renders, a
  pending request settles (the one at the given position among the suspended
  handlers, with what \<open>fetch\<close> and \<open>json()\<close> gave), a form is submitted, a link or
  button is clicked, the flash message times out or is closed.

  A submit event carries the field values of the form at that moment. For the login,
  forgot-password, OTP and profile forms the event stands for a submission that has
  passed the form's own validation; a submission that fails it changes only the form.
\<close>

datatype event =
    MountEffect
  | Rerender
  | Settle nat fetched
  | SubmitLogin string string
  | SubmitForgot string
  | SubmitOtp jsval string
  | SubmitReset reset_form
  | SubmitProfile string string string
  | Logout
  | FollowLink
  | FlashTimeout
  | FlashClose

text \<open>
  While \<open>loading\<close> holds App renders the loading notice only; after that it renders
  the one page whose name is the current one.
\<close>

definition rendered :: "string \<Rightarrow> app_state \<Rightarrow> bool" where
  "rendered p s = (\<not> loading s \<and> name (currentPage s) = p)"

definition resume :: "cont \<Rightarrow> jsval \<Rightarrow> app_state \<Rightarrow> exn option \<times> app_state" where
  "resume k response s =
     (case k of
        CheckAuthK \<Rightarrow> checkAuth_resume response s
      | LoginK \<Rightarrow> handleSubmit_resume response s
      | ForgotK em \<Rightarrow> handleRequestOtp_resume em response s
      | OtpK em code \<Rightarrow> handleVerifyOtp_resume em code response s
      | ResetK \<Rightarrow> handleResetPassword_resume response s
      | ProfileK \<Rightarrow> handleChangePassword_resume response s)"

text \<open>The link at the foot of each page, and the Profile Settings button of the dashboard.\<close>

definition followLink :: "app_state \<Rightarrow> app_state" where
  "followLink s =
     (if rendered ''login'' s then setCurrentPage \<lparr> name = ''forgot-password'', data = JNull \<rparr> s
      else if rendered ''forgot-password'' s then setCurrentPage \<lparr> name = ''login'', data = JNull \<rparr> s
      else if rendered ''verify-otp'' s then setCurrentPage \<lparr> name = ''forgot-password'', data = JNull \<rparr> s
      else if rendered ''reset-password'' s then setCurrentPage \<lparr> name = ''login'', data = JNull \<rparr> s
      else if rendered ''dashboard'' s \<and> truthy (user s)
        then setCurrentPage \<lparr> name = ''profile-settings'', data = JNull \<rparr> s
      else if rendered ''profile-settings'' s then setCurrentPage \<lparr> name = ''dashboard'', data = JNull \<rparr> s
      else s)"

fun step :: "app_state \<Rightarrow> event \<Rightarrow> app_state" where
  "step s MountEffect = checkAuth s"
| "step s Rerender = s"
| "step s (Settle i outcome) =
     (if i < length (awaiting s) then
        snd (resume (awaiting s ! i) (request_settle outcome)
               (s\<lparr>awaiting := take i (awaiting s) @ drop (Suc i) (awaiting s)\<rparr>))
      else s)"
| "step s (SubmitLogin em pw) =
     (if rendered ''login'' s then
        issue ''/login'' ''POST'' (JObj [(''email'', JStr em), (''password'', JStr pw)]) JNull LoginK s
      else s)"
| "step s (SubmitForgot em) =
     (if rendered ''forgot-password'' s then
        issue ''/forgot-password'' ''POST'' (JObj [(''email'', JStr em)]) JNull (ForgotK (JStr em)) s
      else s)"
| "step s (SubmitOtp em code) =
     (if rendered ''verify-otp'' s then
        issue ''/verify-otp'' ''POST'' (JObj [(''email'', em), (''otp'', JStr code)]) JNull
          (OtpK em (JStr code)) s
      else s)"
| "step s (SubmitReset f) =
     (if rendered ''reset-password'' s then handleResetPassword f s else s)"
| "step s (SubmitProfile cur new confirm) =
     (if rendered ''profile-settings'' s then
        issue ''/profile/reset-password'' ''POST''
          (JObj [(''current_password'', JStr cur), (''new_password'', JStr new),
                 (''new_password_confirmation'', JStr confirm)])
          (token s) ProfileK s
      else s)"
| "step s Logout =
     (if rendered ''dashboard'' s \<and> truthy (user s) then handleLogout s else s)"
| "step s FollowLink = followLink s"
| "step s FlashTimeout = s\<lparr>flashMessage := JNull, flashType := JNull\<rparr>"
| "step s FlashClose = s\<lparr>flashMessage := JNull\<rparr>"

definition run :: "app_state \<Rightarrow> event list \<Rightarrow> app_state" where
  "run s evs = foldl step s evs"

text \<open>The number of requests made to the session-check endpoint so far.\<close>

definition user_calls :: "app_state \<Rightarrow> nat" where
  "user_calls s = length (filter (\<lambda>c. fst c = ''/user'') (requested s))"

text \<open>The session invariant: a user is held only together with a token.\<close>

definition session_inv :: "app_state \<Rightarrow> bool" where
  "session_inv s = (nullish (user s) \<or> \<not> nullish (token s))"

text \<open>
  A settled response gives a token with the user: when it reports success and its data
  hold a user, they hold an access token too.
\<close>

definition supplies_token :: "jsval \<Rightarrow> bool" where
  "supplies_token response =
     (case (get response ''success'', get2 response ''data'' ''user'',
            get2 response ''data'' ''access_token'') of
        (Inr success, Inr u, Inr t) \<Rightarrow> \<not> truthy success \<or> nullish u \<or> \<not> nullish t
      | _ \<Rightarrow> True)"

text \<open>
  The events of a run as the server of the interface table would answer them: every
  response to a \<open>/login\<close> request gives a token with the user.
\<close>

fun login_answers_ok :: "app_state \<Rightarrow> event list \<Rightarrow> bool" where
  "login_answers_ok s [] = True"
| "login_answers_ok s (e # es) =
     ((case e of
         Settle i outcome \<Rightarrow>
           \<not> (i < length (awaiting s) \<and> awaiting s ! i = LoginK)
           \<or> supplies_token (request_settle outcome)
       | _ \<Rightarrow> True)
      \<and> login_answers_ok (step s e) es)"


subsection \<open>Invariants of the runs\<close>

text \<open>
  Until the mount effect has run for the first time no session check has been
  requested, and there is never more than one.
\<close>

definition once_inv :: "app_state \<Rightarrow> bool" where
  "once_inv s = ((isInitialMount s \<longrightarrow> user_calls s = 0) \<and> user_calls s \<le> 1)"

text \<open>
  The two phases of a run. While \<open>loading\<close> holds there is no user, and the only handler
  that can be suspended is the session check, which was started with a token. Once
  \<open>loading\<close> is off the session check is over for good.
\<close>

definition phase_inv :: "app_state \<Rightarrow> bool" where
  "phase_inv s =
     (session_inv s
      \<and> (loading s \<longrightarrow>
            nullish (user s)
            \<and> (awaiting s = []
               \<or> (awaiting s = [CheckAuthK] \<and> \<not> nullish (token s) \<and> \<not> isInitialMount s)))
      \<and> (\<not> loading s \<longrightarrow> CheckAuthK \<notin> set (awaiting s) \<and> \<not> isInitialMount s))"


section \<open>Properties of apiService.request\<close>

lemma get_nullish: "nullish d \<Longrightarrow> get d k = Inl TypeError"
  by (cases d) simp_all

lemma get_Inl_nullish: "get d k = Inl e \<Longrightarrow> nullish d"
  by (cases d) simp_all

lemma get_Inr_ex: "\<not> nullish d \<Longrightarrow> \<exists>v. get d k = Inr v"
  by (cases d) simp_all

lemma truthy_not_nullish: "truthy v \<Longrightarrow> \<not> nullish v"
  by (cases v) simp_all

lemmas request_defs = request_def request_settle_def request_try_def request_classify_def
  ebind_def js_or_def api_result_ok_def api_result_err_def error_obj_def network_error_def

text \<open>
  C1, as the code has it. For the body \<open>{foo:"bar", error:null}\<close> the classification
  returns the success envelope \<open>{success:true, data: rawBody}\<close>. In general, for a body
  without a \<open>success\<close> key, the second branch asks that the body be an object (or
  array) and that the values of \<open>error\<close> and \<open>errors\<close> be falsy; whether the keys are
  present plays no part. Otherwise the result is the UNEXPECTED_RESPONSE envelope, with
  the message of the body if that is truthy.
\<close>

theorem classify_no_success_key:
  "request_classify (JObj [(''foo'', JStr ''bar''), (''error'', JNull)])
     = Inr (api_result_ok (JObj [(''foo'', JStr ''bar''), (''error'', JNull)]))
   \<and> (get raw ''success'' = Inr JUndefined \<and> get raw ''error'' = Inr err
        \<and> get raw ''errors'' = Inr errors \<and> get raw ''message'' = Inr message
      \<longrightarrow> request_classify raw =
            Inr (if typeof_object raw \<and> \<not> truthy err \<and> \<not> truthy errors
                 then api_result_ok raw
                 else api_result_err
                        (error_obj (if truthy message then message
                                    else JStr ''An unexpected API response format was received.'')
                           ''UNEXPECTED_RESPONSE'' raw)))"
proof (intro conjI impI)
  show "request_classify (JObj [(''foo'', JStr ''bar''), (''error'', JNull)])
          = Inr (api_result_ok (JObj [(''foo'', JStr ''bar''), (''error'', JNull)]))"
    by (simp add: request_classify_def ebind_def)
next
  assume a: "get raw ''success'' = Inr JUndefined \<and> get raw ''error'' = Inr err
        \<and> get raw ''errors'' = Inr errors \<and> get raw ''message'' = Inr message"
  then have "\<not> nullish raw" using get_nullish [of raw "''success''"] by auto
  then have "raw \<noteq> JNull" by auto
  then show "request_classify raw =
            Inr (if typeof_object raw \<and> \<not> truthy err \<and> \<not> truthy errors
                 then api_result_ok raw
                 else api_result_err
                        (error_obj (if truthy message then message
                                    else JStr ''An unexpected API response format was received.'')
                           ''UNEXPECTED_RESPONSE'' raw))"
    using a by (simp add: request_classify_def ebind_def js_or_def)
qed

theorem classify_no_success_key_witness:
  "request_classify (JObj [(''foo'', JStr ''bar''), (''error'', JStr ''boom'')])
     = Inr (api_result_err
              (error_obj (JStr ''An unexpected API response format was received.'')
                 ''UNEXPECTED_RESPONSE''
                 (JObj [(''foo'', JStr ''bar''), (''error'', JStr ''boom'')])))"
  using classify_no_success_key
          [of "JObj [(''foo'', JStr ''bar''), (''error'', JStr ''boom'')]"
              "JStr ''boom''" JUndefined JUndefined]
  by simp

text \<open>
  The body \<open>{foo:"bar", error:null}\<close> is not given the UNEXPECTED_RESPONSE envelope.
\<close>

theorem classify_error_null_counterexample:
  "request_classify (JObj [(''foo'', JStr ''bar''), (''error'', JNull)])
   \<noteq> Inr (api_result_err
            (error_obj (JStr ''An unexpected API response format was received.'')
               ''UNEXPECTED_RESPONSE''
               (JObj [(''foo'', JStr ''bar''), (''error'', JNull)])))"
  by (simp add: request_classify_def ebind_def api_result_ok_def api_result_err_def)

text \<open>
  C3, as the code has it. For a body whose \<open>success\<close> key is present and falsy and
  whose \<open>errors\<close> value is truthy, the request returns \<open>{success:false, error:{message,
  code:'VALIDATION_ERROR', details: rawBody.errors}}\<close>, where the message is the one of
  the body when that is truthy and \<open>'Validation failed'\<close> otherwise (so also for an
  empty message). The body \<open>{success:false, errors:{email:["bad"]}}\<close> gives the code
  VALIDATION_ERROR with \<open>details.email = ["bad"]\<close>.
\<close>

theorem request_validation_error:
  "request_settle (Inr (Inr (JObj [(''success'', JBool False),
                                   (''errors'', JObj [(''email'', JArr [JStr ''bad''])])])))
     = api_result_err (error_obj (JStr ''Validation failed'') ''VALIDATION_ERROR''
                         (JObj [(''email'', JArr [JStr ''bad''])]))
   \<and> (get raw ''success'' = Inr success \<and> success \<noteq> JUndefined \<and> \<not> truthy success
        \<and> get raw ''errors'' = Inr errors \<and> truthy errors
        \<and> get raw ''message'' = Inr message
      \<longrightarrow> request_settle (Inr (Inr raw)) =
            api_result_err
              (error_obj (if truthy message then message else JStr ''Validation failed'')
                 ''VALIDATION_ERROR'' errors))"
  by (simp add: request_settle_def request_try_def request_classify_def ebind_def js_or_def)

theorem request_validation_error_witness:
  "request_settle (Inr (Inr (JObj [(''success'', JNull),
                                   (''errors'', JArr [JStr ''bad'']),
                                   (''message'', JStr ''The given data was invalid.'')])))
     = api_result_err (error_obj (JStr ''The given data was invalid.'') ''VALIDATION_ERROR''
                         (JArr [JStr ''bad'']))"
  using request_validation_error
          [of "JObj [(''success'', JNull), (''errors'', JArr [JStr ''bad'']),
                     (''message'', JStr ''The given data was invalid.'')]"
              JNull "JArr [JStr ''bad'']" "JStr ''The given data was invalid.''"]
  by simp

text \<open>
  A body whose message is present and empty does not keep that message.
\<close>

theorem request_validation_blank_message_counterexample:
  "request_settle (Inr (Inr (JObj [(''success'', JBool False),
                                   (''errors'', JObj [(''email'', JArr [JStr ''bad''])]),
                                   (''message'', JStr [])])))
   \<noteq> api_result_err (error_obj (JStr []) ''VALIDATION_ERROR''
                        (JObj [(''email'', JArr [JStr ''bad''])]))"
  by (simp add: request_defs)

text \<open>
  C4. When \<open>fetch\<close> rejects, or the body of the response cannot be parsed as JSON, the
  request returns \<open>{success:false, error:{message:'Network error or server
  unreachable.', code:'NETWORK_ERROR'}}\<close>. Whatever \<open>fetch\<close> does, the request returns an
  object with a boolean \<open>success\<close>: nothing thrown in the try block reaches the caller.
\<close>

theorem request_transport_failure:
  "(fetch (BASE_URL @ endpoint) (request_config meth dat tok) = Inl e
      \<or> fetch (BASE_URL @ endpoint) (request_config meth dat tok) = Inr (Inl e)
    \<longrightarrow> request fetch BASE_URL endpoint meth dat tok = network_error)
   \<and> (\<exists>b. get (request fetch BASE_URL endpoint meth dat tok) ''success'' = Inr (JBool b))"
  by (auto simp add: request_defs split: sum.splits)

theorem request_transport_failure_witness:
  "request (\<lambda>url cfg. Inl FetchError) ''https://api.example/api'' ''/user'' ''GET'' JNull
       (JStr ''abc'') = network_error
   \<and> request (\<lambda>url cfg. Inr (Inl SyntaxError)) ''https://api.example/api'' ''/login'' ''POST''
       (JObj [(''email'', JStr ''a@b.co''), (''password'', JStr ''secret1'')]) JNull
       = network_error"
  using request_transport_failure
          [of "\<lambda>url cfg. Inl FetchError" "''https://api.example/api''" "''/user''"
              "''GET''" JNull "JStr ''abc''" FetchError]
        request_transport_failure
          [of "\<lambda>url cfg. Inr (Inl SyntaxError)" "''https://api.example/api''" "''/login''"
              "''POST''" "JObj [(''email'', JStr ''a@b.co''), (''password'', JStr ''secret1'')]"
              JNull SyntaxError]
  by simp

text \<open>
  C10. For a body whose \<open>success\<close> key is present and falsy, whose \<open>errors\<close> value is
  absent or falsy and whose \<open>error\<close> key is absent, the request returns
  \<open>{success:false, error: undefined}\<close>; reading \<open>response.error.message\<close> from that
  result throws a TypeError.
\<close>

theorem request_failure_without_error:
  "get raw ''success'' = Inr success \<and> success \<noteq> JUndefined \<and> \<not> truthy success
     \<and> get raw ''errors'' = Inr errors \<and> \<not> truthy errors
     \<and> get raw ''error'' = Inr JUndefined
   \<longrightarrow> request_settle (Inr (Inr raw)) = api_result_err JUndefined
       \<and> get2 (request_settle (Inr (Inr raw))) ''error'' ''message'' = Inl TypeError"
  by (simp add: request_settle_def request_try_def request_classify_def ebind_def
        api_result_err_def get2_def)

theorem request_failure_without_error_witness:
  "request_settle (Inr (Inr (JObj [(''success'', JBool False)])))
     = JObj [(''success'', JBool False), (''error'', JUndefined)]
   \<and> get2 (request_settle (Inr (Inr (JObj [(''success'', JBool False)]))))
        ''error'' ''message'' = Inl TypeError"
  using request_failure_without_error
          [of "JObj [(''success'', JBool False)]" "JBool False" JUndefined]
  by (simp add: api_result_err_def get2_def ebind_def)


section \<open>Properties of the validation rules\<close>

lemmas rule_defs = isNumericAndLength_def hasMinLength_def test_digits_def is_digit_def
  decimal.simps digit_char_def otp_rule_blank_def min8_rule_def

text \<open>
  C2, as the code has it. \<open>validate(v, rules)\<close> returns the result of the first rule
  in list order whose result on \<open>v\<close> is truthy, and returns \<open>undefined\<close> if and only
  if no rule gives a truthy result on \<open>v\<close>: a rule whose result is falsy (\<open>undefined\<close>,
  but also an empty message or \<open>null\<close>) is passed over. It never returns the result
  of a later rule when an earlier one gave a truthy result.
\<close>

theorem validate_first_truthy:
  "validate v rules =
     (case find (\<lambda>rule. truthy (rule v)) rules of None \<Rightarrow> JUndefined | Some rule \<Rightarrow> rule v)
   \<and> ((validate v rules = JUndefined) = (\<forall>rule \<in> set rules. \<not> truthy (rule v)))"
proof
  show "validate v rules =
     (case find (\<lambda>rule. truthy (rule v)) rules of None \<Rightarrow> JUndefined | Some rule \<Rightarrow> rule v)"
    by (induction rules) (simp_all add: Let_def)
next
  show "(validate v rules = JUndefined) = (\<forall>rule \<in> set rules. \<not> truthy (rule v))"
  proof (induction rules)
    case Nil
    show ?case by simp
  next
    case (Cons rule rules)
    show ?case
    proof (cases "truthy (rule v)")
      case True
      then have "rule v \<noteq> JUndefined" by auto
      with True show ?thesis by (simp add: Let_def)
    next
      case False
      with Cons.IH show ?thesis by (simp add: Let_def)
    qed
  qed
qed

theorem validate_first_truthy_witness:
  "validate ''1234'' [min8_rule, otp_rule_blank] = JStr ''Must be at least 8 characters.''
   \<and> validate ''12345678'' [min8_rule] = JUndefined"
  using validate_first_truthy [of "''1234''" "[min8_rule, otp_rule_blank]"]
        validate_first_truthy [of "''12345678''" "[min8_rule]"]
  by (simp add: rule_defs)

text \<open>
  The six-digit rule with an empty message fails on \<open>"12345"\<close> (its result is the empty
  string, not \<open>undefined\<close>), and yet \<open>validate\<close> returns the message of the rule after it.
\<close>

theorem validate_blank_message_counterexample:
  "otp_rule_blank ''12345'' \<noteq> JUndefined
   \<and> validate ''12345'' [otp_rule_blank, min8_rule] = JStr ''Must be at least 8 characters.''"
  by (simp add: rule_defs)

lemma all_digits: "list_all is_digit v = (set v \<subseteq> set ''0123456789'')"
  unfolding list_all_iff is_digit_def by blast

text \<open>
  C9. \<open>isNumericAndLength("12345", 6)\<close> and \<open>isNumericAndLength("abcdef", 6)\<close> return
  an error message, \<open>isNumericAndLength("123456", 6)\<close> returns \<open>undefined\<close>, and for a
  non-empty string \<open>v\<close> the rule fails exactly when \<open>v\<close> is not made of exactly \<open>n\<close>
  decimal digits.
\<close>

theorem isNumericAndLength_digits:
  "isNumericAndLength ''12345'' 6 None = JStr ''Must be a 6-digit number.''
   \<and> isNumericAndLength ''abcdef'' 6 None = JStr ''Must be a 6-digit number.''
   \<and> isNumericAndLength ''123456'' 6 None = JUndefined
   \<and> (v \<noteq> [] \<longrightarrow>
        (isNumericAndLength v n m \<noteq> JUndefined)
        = (\<not> (length v = n \<and> set v \<subseteq> set ''0123456789'')))"
proof (intro conjI impI)
  assume "v \<noteq> []"
  then show "(isNumericAndLength v n m \<noteq> JUndefined)
        = (\<not> (length v = n \<and> set v \<subseteq> set ''0123456789''))"
    unfolding isNumericAndLength_def test_digits_def all_digits
    by (simp only: simp_thms if_True if_False jsval.distinct split: if_splits) blast
qed (simp_all add: rule_defs)

theorem isNumericAndLength_digits_witness:
  "isNumericAndLength ''12a456'' 6 None = JStr ''Must be a 6-digit number.''
   \<and> isNumericAndLength ''000000'' 6 (Some ''Enter the code.'') = JUndefined"
proof -
  have "isNumericAndLength ''12a456'' 6 None \<noteq> JUndefined"
    using isNumericAndLength_digits [of "''12a456''" 6 None] by simp
  moreover have "isNumericAndLength ''000000'' 6 (Some ''Enter the code.'') = JUndefined"
    using isNumericAndLength_digits [of "''000000''" 6 "Some ''Enter the code.''"] by simp
  ultimately show ?thesis by (simp add: rule_defs)
qed


section \<open>Properties of the session and page state\<close>

lemmas handler_defs = resume_def checkAuth_resume_def handleSubmit_resume_def
  handleRequestOtp_resume_def handleVerifyOtp_resume_def handleResetPassword_resume_def
  handleChangePassword_resume_def reading_def showFlashMessage_def setCurrentPage_def
  redirectToDashboard_def

lemmas event_defs = run_def initial_state_def checkAuth_def followLink_def rendered_def
  issue_def handleResetPassword_def validateForm_def handleLogout_def get2_def

text \<open>
  C6. \<open>redirectToDashboard\<close> sets the page to \<open>{name:'dashboard', data:null}\<close> for
  each of the roles super_admin, school_admin, hod, teacher and student, and to
  \<open>{name:'login', data:null}\<close> for any other value, \<open>undefined\<close> included; it changes
  nothing else.
\<close>

theorem redirectToDashboard_roles:
  "redirectToDashboard role s =
     s\<lparr>currentPage :=
         \<lparr> name = (if role \<in> {JStr ''super_admin'', JStr ''school_admin'', JStr ''hod'',
                                 JStr ''teacher'', JStr ''student''}
                    then ''dashboard'' else ''login''),
           data = JNull \<rparr>\<rparr>"
  by (simp add: redirectToDashboard_def setCurrentPage_def)

theorem redirectToDashboard_roles_witness:
  "currentPage (redirectToDashboard (JStr ''hod'') (initial_state None))
     = \<lparr> name = ''dashboard'', data = JNull \<rparr>
   \<and> currentPage (redirectToDashboard JUndefined (initial_state None))
     = \<lparr> name = ''login'', data = JNull \<rparr>
   \<and> currentPage (redirectToDashboard (JStr ''Teacher'') (initial_state None))
     = \<lparr> name = ''login'', data = JNull \<rparr>"
  using redirectToDashboard_roles [of "JStr ''hod''" "initial_state None"]
        redirectToDashboard_roles [of JUndefined "initial_state None"]
        redirectToDashboard_roles [of "JStr ''Teacher''" "initial_state None"]
  by simp


subsection \<open>The session check runs once\<close>

lemma resume_requested: "requested (snd (resume k r s)) = requested s"
  by (cases k) (simp_all add: handler_defs Let_def split: sum.splits)

lemma resume_isInitialMount: "isInitialMount (snd (resume k r s)) = isInitialMount s"
  by (cases k) (simp_all add: handler_defs Let_def split: sum.splits)

lemma resume_awaiting: "awaiting (snd (resume k r s)) = awaiting s"
  by (cases k) (simp_all add: handler_defs Let_def split: sum.splits)

lemma resume_loading: "k \<noteq> CheckAuthK \<Longrightarrow> loading (snd (resume k r s)) = loading s"
  by (cases k) (simp_all add: handler_defs Let_def split: sum.splits)

lemma step_once_inv: "once_inv s \<Longrightarrow> once_inv (step s e)"
  by (cases e)
     (auto simp add: once_inv_def user_calls_def resume_requested resume_isInitialMount
        checkAuth_def issue_def setCurrentPage_def Let_def handleResetPassword_def
        handleLogout_def showFlashMessage_def followLink_def)

lemma run_once_inv: "once_inv s \<Longrightarrow> once_inv (run s evs)"
  unfolding run_def by (induction evs arbitrary: s) (simp_all add: step_once_inv)

lemma idle_events:
  assumes "\<not> isInitialMount s" and "set rs \<subseteq> {Rerender, MountEffect}"
  shows "run s rs = s"
  using assms unfolding run_def
  by (induction rs) (auto simp add: checkAuth_def)

lemma rejected_check:
  assumes tok: "tok \<noteq> []" and rs: "set rs \<subseteq> {Rerender, MountEffect}"
      and fail: "get (request_settle outcome) ''success'' = Inr (JBool False)"
  shows "run (initial_state (Some tok)) (MountEffect # rs @ [Settle 0 outcome])
         = (initial_state (Some tok))
             \<lparr>token := JNull, loading := False,
               flashMessage := JStr ''Your session has expired. Please log in again.'',
               flashType := JStr ''danger'',
               currentPage := \<lparr> name = ''login'', data = JNull \<rparr>,
               isInitialMount := False, authToken := None,
               requested := [(''/user'', request_config ''GET'' JNull (JStr tok))]\<rparr>"
proof -
  define s1 where "s1 = step (initial_state (Some tok)) MountEffect"
  have s1: "s1 = (initial_state (Some tok))
                   \<lparr>isInitialMount := False,
                     requested := [(''/user'', request_config ''GET'' JNull (JStr tok))],
                     awaiting := [CheckAuthK]\<rparr>"
    using tok by (simp add: s1_def checkAuth_def initial_state_def issue_def)
  have "\<not> isInitialMount s1" by (simp add: s1)
  then have idle: "run s1 rs = s1" using rs by (rule idle_events)
  have "run (initial_state (Some tok)) (MountEffect # rs @ [Settle 0 outcome])
          = run (run s1 rs) [Settle 0 outcome]"
    unfolding s1_def run_def by simp
  then have "run (initial_state (Some tok)) (MountEffect # rs @ [Settle 0 outcome])
          = step s1 (Settle 0 outcome)"
    unfolding idle by (simp add: run_def)
  moreover have "step s1 (Settle 0 outcome)
         = (initial_state (Some tok))
             \<lparr>token := JNull, loading := False,
               flashMessage := JStr ''Your session has expired. Please log in again.'',
               flashType := JStr ''danger'',
               currentPage := \<lparr> name = ''login'', data = JNull \<rparr>,
               isInitialMount := False, authToken := None,
               requested := [(''/user'', request_config ''GET'' JNull (JStr tok))]\<rparr>"
    using fail
    by (simp add: s1 initial_state_def resume_def checkAuth_resume_def reading_def
          showFlashMessage_def setCurrentPage_def)
  ultimately show ?thesis by simp
qed

text \<open>
  C5. In every run of the application, whatever the stored token and whatever the
  events (re-renders, repeated invocations of the mount effect, submissions, settled
  requests, clicks), at most one request is made to the session-check endpoint
  \<open>/user\<close>. When a non-empty token is stored and the check comes back with
  \<open>success\<close> false, then, however often the component re-renders or the effect is
  invoked again in between, exactly one check has been requested, the token is null
  in the state and removed from storage, and the page is \<open>{name:'login', data:null}\<close>.
\<close>

theorem session_check_once:
  "user_calls (run (initial_state stored) evs) \<le> 1
   \<and> (tok \<noteq> [] \<and> set rs \<subseteq> {Rerender, MountEffect}
        \<and> get (request_settle outcome) ''success'' = Inr (JBool False)
      \<longrightarrow> user_calls (run (initial_state (Some tok)) (MountEffect # rs @ [Settle 0 outcome])) = 1
          \<and> token (run (initial_state (Some tok)) (MountEffect # rs @ [Settle 0 outcome])) = JNull
          \<and> authToken (run (initial_state (Some tok)) (MountEffect # rs @ [Settle 0 outcome])) = None
          \<and> currentPage (run (initial_state (Some tok)) (MountEffect # rs @ [Settle 0 outcome]))
              = \<lparr> name = ''login'', data = JNull \<rparr>)"
proof (intro conjI impI)
  have "once_inv (initial_state stored)"
    by (simp add: once_inv_def user_calls_def initial_state_def)
  then have "once_inv (run (initial_state stored) evs)" by (rule run_once_inv)
  then show "user_calls (run (initial_state stored) evs) \<le> 1" by (simp add: once_inv_def)
next
  assume a: "tok \<noteq> [] \<and> set rs \<subseteq> {Rerender, MountEffect}
        \<and> get (request_settle outcome) ''success'' = Inr (JBool False)"
  then have r: "run (initial_state (Some tok)) (MountEffect # rs @ [Settle 0 outcome])
         = (initial_state (Some tok))
             \<lparr>token := JNull, loading := False,
               flashMessage := JStr ''Your session has expired. Please log in again.'',
               flashType := JStr ''danger'',
               currentPage := \<lparr> name = ''login'', data = JNull \<rparr>,
               isInitialMount := False, authToken := None,
               requested := [(''/user'', request_config ''GET'' JNull (JStr tok))]\<rparr>"
    by (intro rejected_check) simp_all
  show "user_calls (run (initial_state (Some tok)) (MountEffect # rs @ [Settle 0 outcome])) = 1"
    unfolding r by (simp add: user_calls_def)
  show "token (run (initial_state (Some tok)) (MountEffect # rs @ [Settle 0 outcome])) = JNull"
    unfolding r by simp
  show "authToken (run (initial_state (Some tok)) (MountEffect # rs @ [Settle 0 outcome])) = None"
    unfolding r by simp
  show "currentPage (run (initial_state (Some tok)) (MountEffect # rs @ [Settle 0 outcome]))
              = \<lparr> name = ''login'', data = JNull \<rparr>"
    unfolding r by simp
qed

theorem session_check_once_witness:
  "user_calls (run (initial_state (Some ''abc''))
      [MountEffect, Rerender, MountEffect,
       Settle 0 (Inr (Inr (JObj [(''success'', JBool False),
                                 (''error'', JObj [(''message'', JStr ''Unauthenticated.'')])]))),
       MountEffect, Rerender]) \<le> 1
   \<and> user_calls (run (initial_state (Some ''abc''))
      [MountEffect, Rerender, MountEffect,
       Settle 0 (Inr (Inr (JObj [(''success'', JBool False),
                                 (''error'', JObj [(''message'', JStr ''Unauthenticated.'')])])))]) = 1
   \<and> token (run (initial_state (Some ''abc''))
      [MountEffect, Rerender, MountEffect,
       Settle 0 (Inr (Inr (JObj [(''success'', JBool False),
                                 (''error'', JObj [(''message'', JStr ''Unauthenticated.'')])])))]) = JNull
   \<and> authToken (run (initial_state (Some ''abc''))
      [MountEffect, Rerender, MountEffect,
       Settle 0 (Inr (Inr (JObj [(''success'', JBool False),
                                 (''error'', JObj [(''message'', JStr ''Unauthenticated.'')])])))]) = None
   \<and> currentPage (run (initial_state (Some ''abc''))
      [MountEffect, Rerender, MountEffect,
       Settle 0 (Inr (Inr (JObj [(''success'', JBool False),
                                 (''error'', JObj [(''message'', JStr ''Unauthenticated.'')])])))])
       = \<lparr> name = ''login'', data = JNull \<rparr>"
proof -
  have fail: "get (request_settle (Inr (Inr (JObj [(''success'', JBool False),
                 (''error'', JObj [(''message'', JStr ''Unauthenticated.'')])])))) ''success''
              = Inr (JBool False)"
    by (simp add: request_defs)
  show ?thesis
    using fail
      session_check_once
        [of "Some ''abc''"
            "[MountEffect, Rerender, MountEffect,
              Settle 0 (Inr (Inr (JObj [(''success'', JBool False),
                                 (''error'', JObj [(''message'', JStr ''Unauthenticated.'')])]))),
              MountEffect, Rerender]"
            "''abc''" "[Rerender, MountEffect]"
            "Inr (Inr (JObj [(''success'', JBool False),
                             (''error'', JObj [(''message'', JStr ''Unauthenticated.'')])]))"]
    by simp
qed


subsection \<open>Password reset\<close>

text \<open>
  C7, as the code has it. When the reset-password request comes back with success and
  a data payload that is not null or undefined, the handler ends without an exception,
  shows the flash message and sets the page to \<open>{name:'login', data:null}\<close>; nothing
  else changes. Whatever the response, the handler leaves the user, the token and the
  stored token as they were: no session is established.
\<close>

theorem reset_success_to_login:
  "(get response ''success'' = Inr success \<and> truthy success
      \<and> get response ''data'' = Inr d \<and> get d ''message'' = Inr message
    \<longrightarrow> handleResetPassword_resume response s =
          (None, s\<lparr>flashMessage := js_or message (JStr ''Password updated successfully!''),
                    flashType := JStr ''success'',
                    currentPage := \<lparr> name = ''login'', data = JNull \<rparr>\<rparr>))
   \<and> user (snd (handleResetPassword_resume response s)) = user s
   \<and> token (snd (handleResetPassword_resume response s)) = token s
   \<and> authToken (snd (handleResetPassword_resume response s)) = authToken s"
  by (simp add: handleResetPassword_resume_def reading_def showFlashMessage_def
        setCurrentPage_def get2_def ebind_def Let_def split: sum.splits)

theorem reset_success_to_login_witness:
  "handleResetPassword_resume
     (request_settle (Inr (Inr (JObj [(''success'', JBool True),
                                      (''data'', JObj [(''message'', JStr ''Password changed.'')])]))))
     (initial_state None)
   = (None, (initial_state None)
              \<lparr>flashMessage := JStr ''Password changed.'',
                flashType := JStr ''success'',
                currentPage := \<lparr> name = ''login'', data = JNull \<rparr>\<rparr>)"
proof -
  have r: "request_settle (Inr (Inr (JObj [(''success'', JBool True),
                                      (''data'', JObj [(''message'', JStr ''Password changed.'')])])))
           = JObj [(''success'', JBool True),
                   (''data'', JObj [(''message'', JStr ''Password changed.'')])]"
    by (simp add: request_defs)
  show ?thesis
    unfolding r
    using reset_success_to_login
            [of "JObj [(''success'', JBool True),
                       (''data'', JObj [(''message'', JStr ''Password changed.'')])]"
                "JBool True" "JObj [(''message'', JStr ''Password changed.'')]"
                "JStr ''Password changed.''" "initial_state None"]
    by (simp add: js_or_def)
qed

text \<open>
  A run through the recovery flow in which the server answers the reset with
  \<open>{success:true}\<close>: the request reports success, the handler throws on
  \<open>response.data.message\<close>, and the page stays on reset-password.
\<close>

theorem reset_success_without_data_counterexample:
  "get (request_settle (Inr (Inr (JObj [(''success'', JBool True)])))) ''success''
     = Inr (JBool True)
   \<and> handleResetPassword_resume (request_settle (Inr (Inr (JObj [(''success'', JBool True)]))))
       (initial_state None) = (Some TypeError, initial_state None)
   \<and> name (currentPage (run (initial_state None)
        [MountEffect, FollowLink, SubmitForgot ''a@b.co'',
         Settle 0 (Inr (Inr (JObj [(''message'', JStr ''OTP sent'')]))),
         SubmitOtp (JStr ''a@b.co'') ''123456'',
         Settle 0 (Inr (Inr (JObj [(''success'', JBool True),
                                   (''data'', JObj [(''message'', JStr ''ok'')])]))),
         SubmitReset \<lparr> email = JStr ''a@b.co'', otp = JStr ''123456'',
                       password = ''secret1'', passwordConfirmation = ''secret1'' \<rparr>,
         Settle 0 (Inr (Inr (JObj [(''success'', JBool True)])))]))
     = ''reset-password''"
  by (simp add: event_defs handler_defs request_defs)


subsection \<open>The session invariant\<close>

lemma login_session:
  assumes "supplies_token r" and "session_inv s"
  shows "session_inv (snd (handleSubmit_resume r s))"
proof -
  consider (thrown) e where "get r ''data'' = Inl e"
    | (null) d where "get r ''data'' = Inr d" "nullish d"
    | (obj) d t u where "get r ''data'' = Inr d" "get d ''access_token'' = Inr t"
        "get d ''user'' = Inr u"
    by (cases "get r ''data''") (use get_Inr_ex in blast)+
  then show ?thesis
  proof cases
    case thrown
    then show ?thesis using assms(2)
      by (auto simp add: handleSubmit_resume_def reading_def session_inv_def
            showFlashMessage_def get2_def ebind_def split: sum.splits)
  next
    case null
    then show ?thesis using assms(2)
      by (auto simp add: handleSubmit_resume_def reading_def session_inv_def
            showFlashMessage_def get2_def ebind_def get_nullish split: sum.splits)
  next
    case obj
    then show ?thesis using assms
      by (auto simp add: handleSubmit_resume_def reading_def session_inv_def supplies_token_def
            showFlashMessage_def setCurrentPage_def redirectToDashboard_def Let_def
            get2_def ebind_def split: sum.splits)
  qed
qed

lemma resume_session:
  assumes "k \<noteq> CheckAuthK" and "k = LoginK \<longrightarrow> supplies_token r" and "session_inv s"
  shows "session_inv (snd (resume k r s))"
proof (cases k)
  case LoginK
  then show ?thesis using assms login_session by (simp add: resume_def)
qed (use assms in \<open>auto simp add: handler_defs session_inv_def Let_def split: sum.splits\<close>)

lemma checkAuth_resume_phase:
  assumes "nullish (user s)" and "\<not> nullish (token s)" and "awaiting s = []"
      and "\<not> isInitialMount s"
  shows "phase_inv (snd (checkAuth_resume r s))"
  using assms
  by (auto simp add: checkAuth_resume_def reading_def phase_inv_def session_inv_def
        showFlashMessage_def setCurrentPage_def redirectToDashboard_def Let_def
        get_nullish split: sum.splits dest: get_Inl_nullish)

lemma notin_remove: "x \<notin> set xs \<Longrightarrow> x \<notin> set (take i xs @ drop (Suc i) xs)"
  by (auto dest: in_set_takeD in_set_dropD)

lemma settle_phase:
  assumes inv: "phase_inv s"
      and ok: "\<not> (i < length (awaiting s) \<and> awaiting s ! i = LoginK)
               \<or> supplies_token (request_settle outcome)"
  shows "phase_inv (step s (Settle i outcome))"
proof (cases "i < length (awaiting s)")
  case False
  then show ?thesis using inv by simp
next
  case True
  let ?k = "awaiting s ! i"
  let ?s' = "s\<lparr>awaiting := take i (awaiting s) @ drop (Suc i) (awaiting s)\<rparr>"
  let ?r = "request_settle outcome"
  have st: "step s (Settle i outcome) = snd (resume ?k ?r ?s')" using True by simp
  show ?thesis
  proof (cases "loading s")
    case True
    with inv \<open>i < length (awaiting s)\<close>
    have aw: "awaiting s = [CheckAuthK]" and tk: "\<not> nullish (token s)"
      and im: "\<not> isInitialMount s" and us: "nullish (user s)"
      by (auto simp add: phase_inv_def)
    from aw \<open>i < length (awaiting s)\<close> have i0: "i = 0" by simp
    have "phase_inv (snd (checkAuth_resume ?r ?s'))"
      by (rule checkAuth_resume_phase) (simp_all add: us tk im aw i0)
    then have "phase_inv (snd (resume ?k ?r ?s'))" by (simp add: aw i0 resume_def)
    then show ?thesis by (simp only: st)
  next
    case False
    with inv have nk: "CheckAuthK \<notin> set (awaiting s)" and im: "\<not> isInitialMount s"
      and si: "session_inv s"
      by (auto simp add: phase_inv_def)
    from nk \<open>i < length (awaiting s)\<close> have k: "?k \<noteq> CheckAuthK"
      by (metis nth_mem)
    have si': "session_inv ?s'" using si by (simp add: session_inv_def)
    have "session_inv (snd (resume ?k ?r ?s'))"
      using k ok \<open>i < length (awaiting s)\<close> si' by (intro resume_session) auto
    moreover have "loading (snd (resume ?k ?r ?s')) = loading s"
      using k by (simp add: resume_loading)
    moreover have "awaiting (snd (resume ?k ?r ?s'))
                     = take i (awaiting s) @ drop (Suc i) (awaiting s)"
      by (simp add: resume_awaiting)
    moreover have "isInitialMount (snd (resume ?k ?r ?s')) = isInitialMount s"
      by (simp add: resume_isInitialMount)
    ultimately have "phase_inv (snd (resume ?k ?r ?s'))"
      using False nk im by (simp add: phase_inv_def notin_remove del: set_append)
    then show ?thesis by (simp only: st)
  qed
qed

lemma other_phase:
  assumes "phase_inv s" and "\<forall>i outcome. e \<noteq> Settle i outcome"
  shows "phase_inv (step s e)"
  using assms
  by (cases e)
     (auto simp add: phase_inv_def session_inv_def checkAuth_def issue_def setCurrentPage_def
        Let_def truthy_not_nullish rendered_def handleResetPassword_def handleLogout_def
        showFlashMessage_def followLink_def)

lemma run_phase:
  "phase_inv s \<Longrightarrow> login_answers_ok s evs \<Longrightarrow> phase_inv (run s evs)"
proof (induction evs arbitrary: s)
  case Nil
  then show ?case by (simp add: run_def)
next
  case (Cons e es)
  have "phase_inv (step s e)"
  proof (cases "\<exists>i outcome. e = Settle i outcome")
    case True
    then obtain i outcome where e: "e = Settle i outcome" by blast
    from Cons.prems(2)
    have ok: "\<not> (i < length (awaiting s) \<and> awaiting s ! i = LoginK)
              \<or> supplies_token (request_settle outcome)"
      by (simp add: e)
    show ?thesis unfolding e by (rule settle_phase [OF Cons.prems(1) ok])
  next
    case False
    then show ?thesis using Cons.prems(1) by (intro other_phase) auto
  qed
  moreover have "login_answers_ok (step s e) es" using Cons.prems by simp
  ultimately have "phase_inv (run (step s e) es)" by (rule Cons.IH)
  then show ?case by (simp add: run_def)
qed

text \<open>
  C8, as the code has it. The invariant that a user is held only together with a
  token (\<open>user != null\<close> implies \<open>token != null\<close>) holds in every state of every run,
  provided each response to a login that reports success and holds a user also holds
  an access token: the login handler stores the \<open>access_token\<close> and the \<open>user\<close> of the
  response as they are. The session check sets a user only while the token it was
  started with is in place; logout and the profile password change clear the token and
  the user together; session expiry clears the token while the user is still null.
\<close>

theorem session_inv_preserved:
  "login_answers_ok (initial_state stored) evs
   \<longrightarrow> session_inv (run (initial_state stored) evs)"
proof
  assume ok: "login_answers_ok (initial_state stored) evs"
  have "phase_inv (initial_state stored)"
    by (simp add: phase_inv_def session_inv_def initial_state_def)
  then have "phase_inv (run (initial_state stored) evs)" using ok by (rule run_phase)
  then show "session_inv (run (initial_state stored) evs)" by (simp add: phase_inv_def)
qed

theorem session_inv_preserved_witness:
  "login_answers_ok (initial_state (Some ''old''))
     [MountEffect,
      Settle 0 (Inr (Inr (JObj [(''message'', JStr ''Unauthenticated.''), (''error'', JBool True)]))),
      SubmitLogin ''a@b.co'' ''secret1'',
      Settle 0 (Inr (Inr (JObj [(''access_token'', JStr ''t1''),
                                (''user'', JObj [(''role'', JStr ''teacher'')])]))),
      FollowLink, SubmitProfile ''secret1'' ''secret2'' ''secret2'', FollowLink, Logout]
   \<and> session_inv (run (initial_state (Some ''old''))
     [MountEffect,
      Settle 0 (Inr (Inr (JObj [(''message'', JStr ''Unauthenticated.''), (''error'', JBool True)]))),
      SubmitLogin ''a@b.co'' ''secret1'',
      Settle 0 (Inr (Inr (JObj [(''access_token'', JStr ''t1''),
                                (''user'', JObj [(''role'', JStr ''teacher'')])]))),
      FollowLink, SubmitProfile ''secret1'' ''secret2'' ''secret2'', FollowLink, Logout])"
proof -
  have ok: "login_answers_ok (initial_state (Some ''old''))
     [MountEffect,
      Settle 0 (Inr (Inr (JObj [(''message'', JStr ''Unauthenticated.''), (''error'', JBool True)]))),
      SubmitLogin ''a@b.co'' ''secret1'',
      Settle 0 (Inr (Inr (JObj [(''access_token'', JStr ''t1''),
                                (''user'', JObj [(''role'', JStr ''teacher'')])]))),
      FollowLink, SubmitProfile ''secret1'' ''secret2'' ''secret2'', FollowLink, Logout]"
    by (simp add: event_defs handler_defs request_defs supplies_token_def)
  then show ?thesis
    using session_inv_preserved [of "Some ''old''"
     "[MountEffect,
      Settle 0 (Inr (Inr (JObj [(''message'', JStr ''Unauthenticated.''), (''error'', JBool True)]))),
      SubmitLogin ''a@b.co'' ''secret1'',
      Settle 0 (Inr (Inr (JObj [(''access_token'', JStr ''t1''),
                                (''user'', JObj [(''role'', JStr ''teacher'')])]))),
      FollowLink, SubmitProfile ''secret1'' ''secret2'' ''secret2'', FollowLink, Logout]"]
    by blast
qed

text \<open>
  A login whose response holds the user but no \<open>access_token\<close> (the token is sent under
  another key): the handler sets the user and sets the token to \<open>undefined\<close>.
\<close>

theorem login_without_token_counterexample:
  "\<not> session_inv (run (initial_state None)
        [MountEffect, SubmitLogin ''a@b.co'' ''secret1'',
         Settle 0 (Inr (Inr (JObj [(''token'', JStr ''abc''),
                                   (''user'', JObj [(''role'', JStr ''teacher'')])])))])"
  by (simp add: event_defs handler_defs request_defs session_inv_def)

end
